theory Spec2Isabelle
  imports Main
begin

section \<open>The exception hierarchy of psycopg3.errors\<close>

text \<open>
  The module defines ten exception classes by nominal inheritance from Python's built-in
  \<^verbatim>\<open>Exception\<close>. Each \<^verbatim>\<open>class X(Y)\<close> statement of the module is one equation of
  \<open>base\<close>; \<^verbatim>\<open>Exception\<close> stands for the built-in root the module inherits from.
\<close>

datatype pyclass =
    Exception
  | Warning
  | Error
  | InterfaceError
  | DatabaseError
  | DataError
  | OperationalError
  | IntegrityError
  | InternalError
  | ProgrammingError
  | NotSupportedError

fun base :: "pyclass \<Rightarrow> pyclass option" where
  "base Exception = None"
| "base Warning = Some Exception"
| "base Error = Some Exception"
| "base InterfaceError = Some Error"
| "base DatabaseError = Some Error"
| "base DataError = Some DatabaseError"
| "base OperationalError = Some DatabaseError"
| "base IntegrityError = Some DatabaseError"
| "base InternalError = Some DatabaseError"
| "base ProgrammingError = Some DatabaseError"
| "base NotSupportedError = Some DatabaseError"

text \<open>The number of inheritance steps up to the root; it bounds the walk along \<open>base\<close>.\<close>

fun depth :: "pyclass \<Rightarrow> nat" where
  "depth Exception = 0"
| "depth Warning = 1"
| "depth Error = 1"
| "depth InterfaceError = 2"
| "depth DatabaseError = 2"
| "depth DataError = 3"
| "depth OperationalError = 3"
| "depth IntegrityError = 3"
| "depth InternalError = 3"
| "depth ProgrammingError = 3"
| "depth NotSupportedError = 3"

text \<open>
  The method resolution order of a class under single inheritance: the class itself, then
  the order of its base.
\<close>

function mro :: "pyclass \<Rightarrow> pyclass list" where
  "mro c = c # (case base c of None \<Rightarrow> [] | Some b \<Rightarrow> mro b)"
  by pat_completeness auto
termination
proof (relation "measure depth")
  show "wf (measure depth)"
    by simp
next
  fix c b
  assume "base c = Some b"
  then have "depth b < depth c"
    by (cases c) auto
  then show "(b, c) \<in> measure depth"
    by simp
qed

declare mro.simps [simp del]

text \<open>Python's \<^verbatim>\<open>issubclass(c, d)\<close>: \<open>d\<close> occurs in the resolution order of \<open>c\<close>.\<close>

definition issubclass :: "pyclass \<Rightarrow> pyclass \<Rightarrow> bool" where
  "issubclass c d = List.member (mro c) d"

section \<open>The diagnostic record\<close>

text \<open>
  Modelled from the spec: \<^verbatim>\<open>psycopg3.pq\<close> (the \<^verbatim>\<open>PGresult\<close> type, the
  \<^verbatim>\<open>DiagnosticField\<close> enumeration, \<^verbatim>\<open>PGresult.error_field\<close> and
  \<^verbatim>\<open>pq.error_message\<close>) is imported by the module but is not part of the sources at
  hand. The spec describes the diagnostic record as an immutable bag of fields: the
  SQLSTATE code (optional), a primary message, and optionally severity, detail, hint,
  context and source file, line and routine.
\<close>

datatype DiagnosticField =
    SEVERITY
  | SQLSTATE
  | MESSAGE_PRIMARY
  | MESSAGE_DETAIL
  | MESSAGE_HINT
  | CONTEXT
  | SOURCE_FILE
  | SOURCE_LINE
  | SOURCE_FUNCTION

record PGresult =
  diag_severity :: "string option"
  diag_sqlstate :: "string option"
  diag_message_primary :: "string option"
  diag_message_detail :: "string option"
  diag_message_hint :: "string option"
  diag_context :: "string option"
  diag_source_file :: "string option"
  diag_source_line :: "string option"
  diag_source_function :: "string option"

text \<open>
  Modelled from the spec: \<^verbatim>\<open>PGresult.error_field\<close> reads one field of the record;
  an absent field is \<open>None\<close>.
\<close>

fun error_field :: "PGresult \<Rightarrow> DiagnosticField \<Rightarrow> string option" where
  "error_field r SEVERITY = diag_severity r"
| "error_field r SQLSTATE = diag_sqlstate r"
| "error_field r MESSAGE_PRIMARY = diag_message_primary r"
| "error_field r MESSAGE_DETAIL = diag_message_detail r"
| "error_field r MESSAGE_HINT = diag_message_hint r"
| "error_field r CONTEXT = diag_context r"
| "error_field r SOURCE_FILE = diag_source_file r"
| "error_field r SOURCE_LINE = diag_source_line r"
| "error_field r SOURCE_FUNCTION = diag_source_function r"

text \<open>
  Modelled from the spec: \<^verbatim>\<open>pq.error_message\<close> yields the display text, which is the
  primary message verbatim; a record without a message gives the empty placeholder.
\<close>

definition error_message :: "PGresult \<Rightarrow> string" where
  "error_message r = (case diag_message_primary r of None \<Rightarrow> [] | Some m \<Rightarrow> m)"

section \<open>Exception instances\<close>

text \<open>
  An instance has its class, the positional arguments kept by \<^verbatim>\<open>Exception\<close> as
  \<^verbatim>\<open>args\<close>, and possibly a \<^verbatim>\<open>pgresult\<close> attribute. The outer option of
  \<open>exc_pgresult\<close> says whether the attribute exists on the instance; the inner one is
  Python's \<^verbatim>\<open>Optional["PGresult"]\<close>, with \<open>None\<close> for Python's \<^verbatim>\<open>None\<close>.
\<close>

record 'a exc =
  exc_class :: pyclass
  exc_args :: "'a list"
  exc_pgresult :: "PGresult option option"

datatype pyerr = TypeError

text \<open>The built-in \<^verbatim>\<open>Exception.__init__(self, *args)\<close> stores the positional arguments.\<close>

definition Exception_init :: "'a exc \<Rightarrow> 'a list \<Rightarrow> 'a exc" where
  "Exception_init self args = self\<lparr>exc_args := args\<rparr>"

text \<open>
  \<^verbatim>\<open>Error.__init__(self, *args, pgresult=None)\<close>: call the parent initialiser with the
  positional arguments, then assign the attribute.
\<close>

definition Error_init :: "'a exc \<Rightarrow> 'a list \<Rightarrow> PGresult option \<Rightarrow> 'a exc" where
  "Error_init self args pgresult = (Exception_init self args)\<lparr>exc_pgresult := Some pgresult\<rparr>"

text \<open>
  Calling a class, \<^verbatim>\<open>cls(*args)\<close> or \<^verbatim>\<open>cls(*args, pgresult=v)\<close>. The keyword is
  \<open>None\<close> when omitted and \<open>Some v\<close> when given. A class below \<^verbatim>\<open>Error\<close> inherits
  \<^verbatim>\<open>Error.__init__\<close>, where an omitted keyword takes its default \<^verbatim>\<open>None\<close>. The other
  classes run the built-in initialiser, which takes no keyword arguments and raises
  \<^verbatim>\<open>TypeError\<close> when one is given.
\<close>

definition call_class :: "pyclass \<Rightarrow> 'a list \<Rightarrow> PGresult option option \<Rightarrow> pyerr + 'a exc" where
  "call_class cls args kw =
     (let self = \<lparr>exc_class = cls, exc_args = [], exc_pgresult = None\<rparr> in
      if issubclass cls Error then
        Inr (Error_init self args (case kw of None \<Rightarrow> None | Some v \<Rightarrow> v))
      else
        (case kw of None \<Rightarrow> Inr (Exception_init self args) | Some v \<Rightarrow> Inl TypeError))"

text \<open>Python's \<^verbatim>\<open>isinstance(e, d)\<close>.\<close>

definition isinstance :: "'a exc \<Rightarrow> pyclass \<Rightarrow> bool" where
  "isinstance e d = issubclass (exc_class e) d"

section \<open>Classification and construction\<close>

text \<open>
  \<^verbatim>\<open>class_for_state(sqlstate)\<close>. The body is the single statement
  \<^verbatim>\<open>return DatabaseError\<close> under the comment \<^verbatim>\<open># TODO: stub\<close>: the argument is not
  inspected. The argument is optional here because the caller passes whatever
  \<^verbatim>\<open>error_field\<close> returns, which is \<^verbatim>\<open>None\<close> for a record without a code.
\<close>

definition class_for_state :: "string option \<Rightarrow> pyclass" where
  "class_for_state sqlstate = DatabaseError"

text \<open>
  \<^verbatim>\<open>error_from_result(result)\<close>: classify the record's SQLSTATE field and call the class
  with the message as its only positional argument. No keyword argument is passed.
\<close>

definition error_from_result :: "PGresult \<Rightarrow> pyerr + string exc" where
  "error_from_result result =
     (let cls = class_for_state (error_field result SQLSTATE) in
      call_class cls [error_message result] None)"

text \<open>
  A SQLSTATE code as the spec describes it: five characters, each a digit or an upper-case
  letter.
\<close>

definition sqlstate_alphabet :: string where
  "sqlstate_alphabet = ''0123456789ABCDEFGHIJKLMNOPQRSTUVWXYZ''"

definition valid_sqlstate :: "string \<Rightarrow> bool" where
  "valid_sqlstate c = (length c = 5 \<and> list_all (List.member sqlstate_alphabet) c)"

section \<open>Sample diagnostic records\<close>

text \<open>A server-reported unique violation, and a client-side failure that has no code.\<close>

definition unique_violation_result :: PGresult where
  "unique_violation_result =
     \<lparr>diag_severity = Some ''ERROR'', diag_sqlstate = Some ''23505'',
      diag_message_primary = Some ''duplicate key value violates unique constraint'',
      diag_message_detail = None, diag_message_hint = None, diag_context = None,
      diag_source_file = None, diag_source_line = None, diag_source_function = None\<rparr>"

definition pool_exhausted_result :: PGresult where
  "pool_exhausted_result =
     \<lparr>diag_severity = None, diag_sqlstate = None,
      diag_message_primary = Some ''connection pool exhausted'',
      diag_message_detail = None, diag_message_hint = None, diag_context = None,
      diag_source_file = None, diag_source_line = None, diag_source_function = None\<rparr>"

section \<open>Facts about the hierarchy and about construction\<close>

lemma mro_Error: "mro Error = [Error, Exception]"
  by (simp add: mro.simps)


lemma mro_Warning: "mro Warning = [Warning, Exception]"
  by (simp add: mro.simps)

lemma issubclass_Error_iff:
  "issubclass c Error = (c \<noteq> Exception \<and> c \<noteq> Warning)"
  by (cases c) (simp_all add: issubclass_def mro.simps)

lemma class_for_state_subclass: "issubclass (class_for_state s) Error"
  by (simp add: class_for_state_def issubclass_Error_iff)

lemma error_from_result_eq:
  "error_from_result r =
     Inr \<lparr>exc_class = DatabaseError, exc_args = [error_message r], exc_pgresult = Some None\<rparr>"
  by (simp add: error_from_result_def call_class_def issubclass_Error_iff Error_init_def
      Exception_init_def class_for_state_def Let_def)

lemma call_class_Error_sub:
  "issubclass cls Error \<Longrightarrow>
     call_class cls args kw =
       Inr \<lparr>exc_class = cls, exc_args = args,
            exc_pgresult = Some (case kw of None \<Rightarrow> None | Some v \<Rightarrow> v)\<rparr>"
  by (simp add: call_class_def Error_init_def Exception_init_def Let_def)

lemma call_class_Warning:
  "call_class Warning args kw =
     (case kw of None \<Rightarrow> Inr \<lparr>exc_class = Warning, exc_args = args, exc_pgresult = None\<rparr>
      | Some v \<Rightarrow> Inl TypeError)"
  by (cases kw) (simp_all add: call_class_def issubclass_Error_iff Exception_init_def Let_def)

section \<open>The claims\<close>

subsection \<open>Construction of errors\<close>

text \<open>
  Claim C1 (diagnostic preservation): the error returned by \<open>error_from_result\<close> should
  carry the result it was built from as its \<^verbatim>\<open>pgresult\<close> attribute. The function calls
  the class with the message only, so \<^verbatim>\<open>Error.__init__\<close> stores its default: at the
  unique-violation record the returned error has \<^verbatim>\<open>pgresult\<close> equal to \<^verbatim>\<open>None\<close>,
  not to the record.
\<close>

theorem error_from_result_pgresult_none:
  "error_from_result unique_violation_result =
     Inr \<lparr>exc_class = DatabaseError,
          exc_args = [''duplicate key value violates unique constraint''],
          exc_pgresult = Some None\<rparr>
   \<and> (\<exists>e. error_from_result unique_violation_result = Inr e
          \<and> exc_pgresult e \<noteq> Some (Some unique_violation_result))"
  by (simp add: error_from_result_eq error_message_def unique_violation_result_def)

text \<open>
  Claim C7 (display text): the error returned by \<open>error_from_result\<close> has exactly one
  positional argument, the string \<open>error_message\<close> gives for the record; for a record with
  a primary message that is the message itself, unchanged, and no other field of the record
  enters it.
\<close>

theorem error_from_result_args:
  "(diag_message_primary r = Some m \<longrightarrow>
      (\<exists>e. error_from_result r = Inr e \<and> exc_args e = [m]))
   \<and> (\<exists>e. error_from_result r = Inr e \<and> exc_args e = [error_message r])"
  by (simp add: error_from_result_eq error_message_def)

theorem error_from_result_args_witness:
  "diag_message_primary unique_violation_result
     = Some ''duplicate key value violates unique constraint''
   \<and> (\<exists>e. error_from_result unique_violation_result = Inr e
          \<and> exc_args e = [''duplicate key value violates unique constraint''])"
proof -
  have m: "diag_message_primary unique_violation_result
             = Some ''duplicate key value violates unique constraint''"
    by (simp add: unique_violation_result_def)
  show ?thesis
    using m error_from_result_args
      [of unique_violation_result "''duplicate key value violates unique constraint''"]
    by blast
qed

text \<open>
  Claim C9 (\<^verbatim>\<open>Error.__init__\<close>): constructing \<^verbatim>\<open>Error\<close> or a subclass stores the
  \<^verbatim>\<open>pgresult\<close> keyword unchanged as the attribute, \<^verbatim>\<open>None\<close> when the keyword is
  omitted, and stores the positional arguments unchanged as \<^verbatim>\<open>args\<close>; the class of the
  instance is left as it was.
\<close>

theorem Error_init_stores:
  "issubclass cls Error \<Longrightarrow>
     call_class cls args (Some pg) =
       Inr \<lparr>exc_class = cls, exc_args = args, exc_pgresult = Some pg\<rparr>
     \<and> call_class cls args None =
       Inr \<lparr>exc_class = cls, exc_args = args, exc_pgresult = Some None\<rparr>
     \<and> exc_pgresult (Error_init self args pg) = Some pg
     \<and> exc_args (Error_init self args pg) = args
     \<and> exc_class (Error_init self args pg) = exc_class self"
  by (simp add: call_class_Error_sub Error_init_def Exception_init_def)

theorem Error_init_stores_witness:
  "issubclass IntegrityError Error
   \<and> call_class IntegrityError [''duplicate key''] (Some (Some unique_violation_result)) =
       Inr \<lparr>exc_class = IntegrityError, exc_args = [''duplicate key''],
            exc_pgresult = Some (Some unique_violation_result)\<rparr>
   \<and> call_class IntegrityError [''duplicate key''] None =
       Inr \<lparr>exc_class = IntegrityError, exc_args = [''duplicate key''],
            exc_pgresult = Some None\<rparr>"
proof -
  have s: "issubclass IntegrityError Error"
    by (simp add: issubclass_def mro.simps)
  show ?thesis
    using s Error_init_stores [OF s, of "[''duplicate key'']" "Some unique_violation_result"]
    by simp
qed

text \<open>
  Claim C10 (hierarchy): \<^verbatim>\<open>Warning\<close> derives directly from \<^verbatim>\<open>Exception\<close> and is not
  a subclass of \<^verbatim>\<open>Error\<close>; an instance of it is not an \<^verbatim>\<open>Error\<close> instance and has no
  \<^verbatim>\<open>pgresult\<close> attribute. \<^verbatim>\<open>InterfaceError\<close> and \<^verbatim>\<open>DatabaseError\<close> derive from
  \<^verbatim>\<open>Error\<close>, the six specific database categories derive from \<^verbatim>\<open>DatabaseError\<close>, and
  each of these seven categories is a subclass of \<^verbatim>\<open>Error\<close> whose instances accept and
  carry a \<^verbatim>\<open>pgresult\<close>.
\<close>

theorem Warning_outside_Error:
  "base Warning = Some Exception \<and> \<not> issubclass Warning Error
   \<and> (call_class Warning args kw = Inr w \<longrightarrow> \<not> isinstance w Error \<and> exc_pgresult w = None)
   \<and> base InterfaceError = Some Error \<and> base DatabaseError = Some Error
   \<and> (c \<in> {DataError, OperationalError, IntegrityError, InternalError, ProgrammingError,
            NotSupportedError} \<longrightarrow> base c = Some DatabaseError)
   \<and> (c \<in> {InterfaceError, DataError, OperationalError, IntegrityError, InternalError,
            ProgrammingError, NotSupportedError} \<longrightarrow>
        issubclass c Error
        \<and> (\<exists>e. call_class c args (Some pg) = Inr e \<and> isinstance e Error
               \<and> exc_pgresult e = Some pg))"
proof -
  have w: "call_class Warning args kw = Inr w \<longrightarrow> \<not> isinstance w Error \<and> exc_pgresult w = None"
    by (cases kw) (auto simp: call_class_Warning isinstance_def issubclass_Error_iff)
  have b: "c \<in> {DataError, OperationalError, IntegrityError, InternalError, ProgrammingError,
            NotSupportedError} \<longrightarrow> base c = Some DatabaseError"
    by auto
  have e: "c \<in> {InterfaceError, DataError, OperationalError, IntegrityError, InternalError,
            ProgrammingError, NotSupportedError} \<longrightarrow>
        issubclass c Error
        \<and> (\<exists>e. call_class c args (Some pg) = Inr e \<and> isinstance e Error
               \<and> exc_pgresult e = Some pg)"
  proof
    assume "c \<in> {InterfaceError, DataError, OperationalError, IntegrityError, InternalError,
            ProgrammingError, NotSupportedError}"
    then have s: "issubclass c Error"
      by (auto simp: issubclass_Error_iff)
    then show "issubclass c Error
        \<and> (\<exists>e. call_class c args (Some pg) = Inr e \<and> isinstance e Error
               \<and> exc_pgresult e = Some pg)"
      by (simp add: call_class_Error_sub isinstance_def)
  qed
  show ?thesis
    using w b e by (simp add: issubclass_Error_iff)
qed

theorem Warning_outside_Error_witness:
  "call_class Warning [''truncated''] None =
     Inr \<lparr>exc_class = Warning, exc_args = [''truncated''], exc_pgresult = None\<rparr>
   \<and> \<not> isinstance \<lparr>exc_class = Warning, exc_args = [''truncated''], exc_pgresult = None\<rparr> Error
   \<and> base DataError = Some DatabaseError
   \<and> issubclass DataError Error
   \<and> (\<exists>e. call_class DataError [''truncated''] (Some (Some pool_exhausted_result)) = Inr e
          \<and> isinstance e Error \<and> exc_pgresult e = Some (Some pool_exhausted_result))"
proof -
  have c: "call_class Warning [''truncated''] None =
     Inr \<lparr>exc_class = Warning, exc_args = [''truncated''], exc_pgresult = None\<rparr>"
    by (simp add: call_class_Warning)
  have d: "DataError \<in> {DataError, OperationalError, IntegrityError, InternalError,
            ProgrammingError, NotSupportedError}"
    by simp
  have d': "DataError \<in> {InterfaceError, DataError, OperationalError, IntegrityError,
            InternalError, ProgrammingError, NotSupportedError}"
    by simp
  show ?thesis
    using c d d' Warning_outside_Error
      [of "[''truncated'']" None
          "\<lparr>exc_class = Warning, exc_args = [''truncated''], exc_pgresult = None\<rparr>"
          DataError "Some pool_exhausted_result"]
    by blast
qed

subsection \<open>Classification\<close>

text \<open>
  Claim C2 (exact-match precedence): a code with an exact table entry should classify to
  that entry's category, and \<^verbatim>\<open>23505\<close> to \<^verbatim>\<open>IntegrityError\<close>. The body of
  \<open>class_for_state\<close> is a stub that looks nothing up: at \<^verbatim>\<open>23505\<close> it returns
  \<^verbatim>\<open>DatabaseError\<close>.
\<close>

theorem class_for_state_23505:
  "class_for_state (Some ''23505'') = DatabaseError
   \<and> class_for_state (Some ''23505'') \<noteq> IntegrityError"
  by (simp add: class_for_state_def)

text \<open>
  Claim C3 (class fallback): a code of class \<^verbatim>\<open>22\<close>, \<^verbatim>\<open>23\<close>, \<^verbatim>\<open>42\<close>,
  \<^verbatim>\<open>08\<close>, \<^verbatim>\<open>0A\<close> or \<^verbatim>\<open>40\<close> should classify to \<^verbatim>\<open>DataError\<close>,
  \<^verbatim>\<open>IntegrityError\<close>, \<^verbatim>\<open>ProgrammingError\<close>, \<^verbatim>\<open>OperationalError\<close>,
  \<^verbatim>\<open>NotSupportedError\<close> and \<^verbatim>\<open>OperationalError\<close>. The stub returns
  \<^verbatim>\<open>DatabaseError\<close> at a code of each of the six classes.
\<close>

theorem class_for_state_class_codes:
  "class_for_state (Some ''22012'') = DatabaseError \<and> DatabaseError \<noteq> DataError
   \<and> class_for_state (Some ''23000'') = DatabaseError \<and> DatabaseError \<noteq> IntegrityError
   \<and> class_for_state (Some ''42000'') = DatabaseError \<and> DatabaseError \<noteq> ProgrammingError
   \<and> class_for_state (Some ''08000'') = DatabaseError \<and> DatabaseError \<noteq> OperationalError
   \<and> class_for_state (Some ''0A000'') = DatabaseError \<and> DatabaseError \<noteq> NotSupportedError
   \<and> class_for_state (Some ''40000'') = DatabaseError"
  by (simp add: class_for_state_def)

text \<open>
  Claim C4 (class \<^verbatim>\<open>01\<close>): the claim that a code beginning with \<^verbatim>\<open>01\<close> classifies to
  \<^verbatim>\<open>Warning\<close> fails at \<^verbatim>\<open>01004\<close>.
\<close>

theorem class_for_state_01004_not_Warning:
  "valid_sqlstate ''01004'' \<and> take 2 ''01004'' = ''01''
   \<and> class_for_state (Some ''01004'') \<noteq> Warning"
  by (simp add: class_for_state_def valid_sqlstate_def sqlstate_alphabet_def)

text \<open>
  Claim C4, as the code has it: \<open>class_for_state\<close> is declared to return a subclass of
  \<^verbatim>\<open>Error\<close>, and \<^verbatim>\<open>Warning\<close> is not one. For every code beginning with \<^verbatim>\<open>01\<close>
  the class returned is a subclass of \<^verbatim>\<open>Error\<close>, hence never \<^verbatim>\<open>Warning\<close>.
\<close>

theorem class_for_state_01_is_Error:
  "valid_sqlstate c \<Longrightarrow> take 2 c = ''01'' \<Longrightarrow>
     issubclass (class_for_state (Some c)) Error \<and> \<not> issubclass Warning Error
     \<and> class_for_state (Some c) \<noteq> Warning"
  by (simp add: issubclass_Error_iff class_for_state_def)

theorem class_for_state_01_is_Error_witness:
  "valid_sqlstate ''01004'' \<and> take 2 ''01004'' = ''01''
   \<and> issubclass (class_for_state (Some ''01004'')) Error \<and> \<not> issubclass Warning Error
   \<and> class_for_state (Some ''01004'') \<noteq> Warning"
proof -
  have v: "valid_sqlstate ''01004''"
    by (simp add: valid_sqlstate_def sqlstate_alphabet_def)
  have p: "take 2 ''01004'' = ''01''"
    by simp
  show ?thesis
    using v p class_for_state_01_is_Error [OF v p] by simp
qed




text \<open>
  Claim C6 (unknown default): whatever exact and class tables one takes, a code with an
  entry in neither classifies to \<^verbatim>\<open>DatabaseError\<close>; so does \<^verbatim>\<open>99XYZ\<close>.
\<close>

theorem class_for_state_unknown_default:
  fixes exact_table class_table :: "string \<Rightarrow> pyclass option"
  shows "(valid_sqlstate c \<longrightarrow> exact_table c = None \<longrightarrow> class_table (take 2 c) = None
           \<longrightarrow> class_for_state (Some c) = DatabaseError)
         \<and> class_for_state (Some ''99XYZ'') = DatabaseError"
  by (simp add: class_for_state_def)

theorem class_for_state_unknown_default_witness:
  "valid_sqlstate ''99XYZ'' \<and> Map.empty ''99XYZ'' = (None :: pyclass option)
   \<and> Map.empty (take 2 ''99XYZ'') = (None :: pyclass option)
   \<and> class_for_state (Some ''99XYZ'') = DatabaseError"
proof -
  have v: "valid_sqlstate ''99XYZ''"
    by (simp add: valid_sqlstate_def sqlstate_alphabet_def)
  show ?thesis
    using v class_for_state_unknown_default [of "''99XYZ''" Map.empty Map.empty] by simp
qed

text \<open>
  Claim C8 (totality): for the absent case and for every five-character code over digits
  and upper-case letters, \<open>class_for_state\<close> returns exactly one class, and that class is
  one of the nine categories. The body has no operation that can raise, so the model is a
  function into the classes with no error branch.
\<close>

theorem class_for_state_total:
  "x = None \<or> (\<exists>c. x = Some c \<and> valid_sqlstate c) \<Longrightarrow>
     class_for_state x \<in> {Warning, InterfaceError, DataError, OperationalError, IntegrityError,
                          InternalError, ProgrammingError, NotSupportedError, DatabaseError}
     \<and> (\<exists>!k. class_for_state x = k)"
  by (simp add: class_for_state_def)

theorem class_for_state_total_witness:
  "valid_sqlstate ''42601''
   \<and> class_for_state (Some ''42601'')
       \<in> {Warning, InterfaceError, DataError, OperationalError, IntegrityError,
          InternalError, ProgrammingError, NotSupportedError, DatabaseError}
   \<and> (\<exists>!k. class_for_state (Some ''42601'') = k)
   \<and> class_for_state None
       \<in> {Warning, InterfaceError, DataError, OperationalError, IntegrityError,
          InternalError, ProgrammingError, NotSupportedError, DatabaseError}
   \<and> (\<exists>!k. class_for_state None = k)"
proof -
  have v: "valid_sqlstate ''42601''"
    by (simp add: valid_sqlstate_def sqlstate_alphabet_def)
  then have h: "Some ''42601'' = None \<or> (\<exists>c. Some ''42601'' = Some c \<and> valid_sqlstate c)"
    by simp
  have n: "(None :: string option) = None \<or> (\<exists>c. None = Some c \<and> valid_sqlstate c)"
    by simp
  show ?thesis
    using v class_for_state_total [OF h] class_for_state_total [OF n] by blast
qed

end
